theory Spec2Isabelle
  imports Complex_Main
begin

section \<open>JavaScript values\<close>

text \<open>
  The request body is what the JSON body parser hands to the handler, so the values of
  the model are the JSON values, with \<open>JUndefined\<close> for what reading an absent
  property yields. Numbers are modelled as reals (the finite numbers of JSON embed in
  them); the program does no arithmetic on them. An object is the list of its own
  properties, each key once.
\<close>

datatype jsval =
    JUndefined
  | JNull
  | JBool bool
  | JNum real
  | JStr string
  | JArr "jsval list"
  | JObj "(string \<times> jsval) list"

text \<open>A thrown value: the \<open>Error\<close> objects of the language and of the libraries.\<close>

datatype exn = Error (message: string)

text \<open>\<open>!v\<close> is \<open>\<not> truthy v\<close>.\<close>

fun truthy :: "jsval \<Rightarrow> bool" where
  "truthy JUndefined = False"
| "truthy JNull = False"
| "truthy (JBool b) = b"
| "truthy (JNum x) = (x \<noteq> 0)"
| "truthy (JStr s) = (s \<noteq> [])"
| "truthy (JArr xs) = True"
| "truthy (JObj fs) = True"

fun isArray :: "jsval \<Rightarrow> bool" where
  "isArray (JArr xs) = True"
| "isArray v = False"

text \<open>
  Reading a property that no prototype defines (\<open>dataset\<close>, \<open>group_img\<close>, \<open>id\<close>,
  \<open>imglink\<close>) from a value other than \<open>null\<close> and \<open>undefined\<close>: an object yields its
  own property or \<open>undefined\<close>; arrays, strings, numbers and booleans yield \<open>undefined\<close>.
\<close>

fun get_property :: "jsval \<Rightarrow> string \<Rightarrow> jsval" where
  "get_property (JObj fs) k = (case map_of fs k of Some v \<Rightarrow> v | None \<Rightarrow> JUndefined)"
| "get_property v k = JUndefined"

text \<open>
  \<open>const { a, b } = v\<close>: throws a TypeError when \<open>v\<close> is \<open>null\<close> or \<open>undefined\<close>, and
  reads the two properties of every other value (a primitive is coerced to its wrapper
  object, which has neither property). \<open>src\<close> is the source text of \<open>v\<close>, which the
  engine quotes in its message (the wording is that of V8).
\<close>

definition quoted :: "string \<Rightarrow> string" where
  "quoted s = CHR 0x27 # s @ [CHR 0x27]"

definition destructure :: "string \<Rightarrow> string \<Rightarrow> string \<Rightarrow> jsval \<Rightarrow> exn + (jsval \<times> jsval)" where
  "destructure a b src v =
     (if v = JUndefined then
        Inl (Error (''Cannot destructure property '' @ quoted a @ '' of '' @ quoted src
                    @ '' as it is undefined.''))
      else if v = JNull then
        Inl (Error (''Cannot destructure property '' @ quoted a @ '' of '' @ quoted src
                    @ '' as it is null.''))
      else Inr (get_property v a, get_property v b))"

text \<open>
  Conversion to text. \<open>ToString\<close> is the conversion a template literal applies to a
  substituted value; \<open>join\<close> is \<open>Array.prototype.join\<close> with the separator \<open>,\<close>, which
  an array's own conversion calls. An object whose own properties include \<open>toString\<close>
  has there a JSON value, which is not callable, and the inherited \<open>valueOf\<close> returns
  the object itself: the conversion throws. The text of a number is a parameter
  \<open>nts\<close>.
\<close>

fun ToString :: "(real \<Rightarrow> string) \<Rightarrow> jsval \<Rightarrow> exn + string"
  and join :: "(real \<Rightarrow> string) \<Rightarrow> jsval list \<Rightarrow> exn + string" where
  "ToString nts JUndefined = Inr ''undefined''"
| "ToString nts JNull = Inr ''null''"
| "ToString nts (JBool b) = Inr (if b then ''true'' else ''false'')"
| "ToString nts (JNum x) = Inr (nts x)"
| "ToString nts (JStr s) = Inr s"
| "ToString nts (JArr xs) = join nts xs"
| "ToString nts (JObj fs) =
     (if map_of fs ''toString'' \<noteq> None then Inl (Error ''Cannot convert object to primitive value'')
      else Inr ''[object Object]'')"
| "join nts [] = Inr []"
| "join nts [x] = (if x = JUndefined \<or> x = JNull then Inr [] else ToString nts x)"
| "join nts (x # y # ys) =
     (case (if x = JUndefined \<or> x = JNull then Inr [] else ToString nts x) of
        Inl e \<Rightarrow> Inl e
      | Inr s \<Rightarrow> (case join nts (y # ys) of Inl e \<Rightarrow> Inl e | Inr r \<Rightarrow> Inr (s @ '','' @ r)))"

text \<open>
  The method call \<open>id.toString()\<close>: on \<open>null\<close> and \<open>undefined\<close> the property read
  throws; on an object with an own \<open>toString\<close> property the call throws, since that
  property is not a function; otherwise the built-in method of the value's type runs.
\<close>

fun toString :: "(real \<Rightarrow> string) \<Rightarrow> jsval \<Rightarrow> exn + string" where
  "toString nts JUndefined = Inl (Error ''Cannot read properties of undefined (reading 'toString')'')"
| "toString nts JNull = Inl (Error ''Cannot read properties of null (reading 'toString')'')"
| "toString nts (JObj fs) =
     (if map_of fs ''toString'' \<noteq> None then Inl (Error ''id.toString is not a function'')
      else Inr ''[object Object]'')"
| "toString nts v = ToString nts v"

section \<open>Effects: a log of external calls and a result\<close>

text \<open>
  An asynchronous computation is modelled by the list of the external calls it makes and
  its outcome: \<open>Inl\<close> a thrown value (a rejected promise), \<open>Inr\<close> a returned one.
  Writing to the console is not recorded.
\<close>

type_synonym ('e, 'a) io = "'e list \<times> (exn + 'a)"

definition io_return :: "'a \<Rightarrow> ('e, 'a) io" where
  "io_return x = ([], Inr x)"

definition io_throw :: "exn \<Rightarrow> ('e, 'a) io" where
  "io_throw e = ([], Inl e)"

text \<open>An outcome computed without an external call.\<close>

definition io_of :: "exn + 'a \<Rightarrow> ('e, 'a) io" where
  "io_of r = ([], r)"

text \<open>An external call: the event is logged, the outcome is the environment's.\<close>

definition io_call :: "'e \<Rightarrow> exn + 'a \<Rightarrow> ('e, 'a) io" where
  "io_call ev r = ([ev], r)"

text \<open>Sequencing (\<open>await\<close> and \<open>;\<close>): a throw skips the rest.\<close>

definition io_bind :: "('e, 'a) io \<Rightarrow> ('a \<Rightarrow> ('e, 'b) io) \<Rightarrow> ('e, 'b) io" where
  "io_bind m f =
     (case m of
        (t, Inl e) \<Rightarrow> (t, Inl e)
      | (t, Inr x) \<Rightarrow> (case f x of (t', r) \<Rightarrow> (t @ t', r)))"

text \<open>\<open>try { m } catch (e) { h e }\<close>.\<close>

definition io_catch :: "('e, 'a) io \<Rightarrow> (exn \<Rightarrow> ('e, 'a) io) \<Rightarrow> ('e, 'a) io" where
  "io_catch m h =
     (case m of
        (t, Inl e) \<Rightarrow> (case h e of (t', r) \<Rightarrow> (t @ t', r))
      | (t, Inr x) \<Rightarrow> (t, Inr x))"

text \<open>
  \<open>Promise.all\<close>: every computation of the list runs, none is cancelled when another
  one rejects, so the log holds the calls of all of them (listed here in index order;
  their interleaving in time is not modelled). It resolves with the list of the results
  when all resolve, and rejects with a rejection otherwise: the first one in index
  order in this model.
\<close>

fun all_results :: "(exn + 'a) list \<Rightarrow> exn + 'a list" where
  "all_results [] = Inr []"
| "all_results (Inl e # rs) = Inl e"
| "all_results (Inr x # rs) = (case all_results rs of Inl e \<Rightarrow> Inl e | Inr xs \<Rightarrow> Inr (x # xs))"

definition Promise_all :: "('e, 'a) io list \<Rightarrow> ('e, 'a list) io" where
  "Promise_all ms = (concat (map fst ms), all_results (map snd ms))"

section \<open>The external world\<close>

text \<open>
  What the program calls and does not define: the HTTP client, the image decoder, the
  face-recognition library, the directory of the script. During one request the world
  is a fixed function of the arguments of each call. \<open>'b\<close> is the type of a byte buffer,
  \<open>'i\<close> of a decoded image.
\<close>

datatype net = FaceRecognitionNet | FaceLandmark68Net | SsdMobilenetv1

type_synonym descriptor = "real list"

text \<open>What \<open>fetch\<close> resolves with; \<open>buffer\<close> is the outcome of \<open>response.buffer()\<close>.\<close>

record 'b response =
  ok :: bool
  statusText :: string
  buffer :: "exn + 'b"

record ('b, 'i) world =
  dirname :: string
  path_join :: "string \<Rightarrow> string \<Rightarrow> string"
  loadFromDisk :: "net \<Rightarrow> string \<Rightarrow> exn + unit"
  fetch :: "jsval \<Rightarrow> exn + 'b response"
  canvas_loadImage :: "'b \<Rightarrow> exn + 'i"
  detectSingleFace :: "'i \<Rightarrow> exn + descriptor option"
  detectAllFaces :: "'i \<Rightarrow> exn + descriptor list"
  number_toString :: "real \<Rightarrow> string"
  euclideanDistance :: "descriptor \<Rightarrow> descriptor \<Rightarrow> real"

text \<open>
  \<open>detectSingleFace\<close> and \<open>detectAllFaces\<close> stand for the awaited chains
  \<open>detectSingleFace(img).withFaceLandmarks().withFaceDescriptor()\<close> (\<open>None\<close> when it
  resolves with \<open>undefined\<close>, else the \<open>descriptor\<close> of the detection) and
  \<open>detectAllFaces(image).withFaceLandmarks().withFaceDescriptors()\<close> (the descriptors
  of the detections, in the detector's order).
\<close>

datatype LabeledFaceDescriptors =
  LabeledFaceDescriptors (label: string) (descriptors: "descriptor list")

datatype ('b, 'i) event =
    LoadFromDisk net string
  | Fetch jsval
  | CanvasLoadImage 'b
  | DetectSingleFace 'i
  | DetectAllFaces 'i
  | NewFaceMatcher "LabeledFaceDescriptors list" real

section \<open>The matcher\<close>

text \<open>
  Modelled from the spec: the matcher object and the match it returns are the
  face-recognition library's, which is not part of the sources. A matcher is seeded
  with the labeled descriptors and a distance threshold; a match is a label and a
  distance.
\<close>

record FaceMatcher =
  labeledDescriptors :: "LabeledFaceDescriptors list"
  distanceThreshold :: real

datatype FaceMatch = FaceMatch (match_label: string) (match_distance: real)

text \<open>
  Modelled from the spec: the closest labeled descriptor to a query descriptor, among
  the labeled vectors (the library's search is not part of the sources). The distance
  between two descriptors is the world's. Among vectors at the same distance this model
  takes the first.
\<close>

fun closest :: "(descriptor \<Rightarrow> descriptor \<Rightarrow> real) \<Rightarrow> descriptor \<Rightarrow> (string \<times> descriptor) list
    \<Rightarrow> FaceMatch option" where
  "closest distance q [] = None"
| "closest distance q ((l, v) # rest) =
     (case closest distance q rest of
        None \<Rightarrow> Some (FaceMatch l (distance v q))
      | Some best \<Rightarrow>
          if distance v q \<le> match_distance best then Some (FaceMatch l (distance v q)) else Some best)"

text \<open>
  Modelled from the spec: the vectors of the labeled descriptors, each with its label
  (the library's own representation is not part of the sources).
\<close>

definition labeled_vectors :: "LabeledFaceDescriptors list \<Rightarrow> (string \<times> descriptor) list" where
  "labeled_vectors lds = concat (map (\<lambda>ld. map (\<lambda>v. (label ld, v)) (descriptors ld)) lds)"

text \<open>
  Modelled from the spec: \<open>findBestMatch\<close> of the library's matcher, which is not part of
  the sources. The spec describes it as the function returning, for a query descriptor,
  the label of the closest labeled descriptor and the distance, or \<open>unknown\<close> if no
  label is within the threshold: a face whose nearest labeled distance exceeds the
  threshold is reported as \<open>unknown\<close>, and a match within the threshold has a distance
  of at most the threshold. The spec says nothing of a matcher without labeled
  descriptors: there \<open>findBestMatch\<close> fails.
\<close>

definition findBestMatch :: "(descriptor \<Rightarrow> descriptor \<Rightarrow> real) \<Rightarrow> FaceMatcher \<Rightarrow> descriptor
    \<Rightarrow> exn + FaceMatch" where
  "findBestMatch distance faceMatcher queryDescriptor =
     (case closest distance queryDescriptor (labeled_vectors (labeledDescriptors faceMatcher)) of
        None \<Rightarrow> Inl (Error ''FaceMatcher: no labeled descriptors'')
      | Some bestMatch \<Rightarrow>
          if match_distance bestMatch \<le> distanceThreshold faceMatcher then Inr bestMatch
          else Inr (FaceMatch ''unknown'' (match_distance bestMatch)))"

section \<open>The program\<close>

text \<open>\<open>loadImage\<close>: the handler of its \<open>catch\<close> logs the error and throws it again.\<close>

definition loadImage :: "('b, 'i) world \<Rightarrow> jsval \<Rightarrow> (('b, 'i) event, 'i) io" where
  "loadImage w url =
     io_catch
       (io_bind (io_call (Fetch url) (fetch w url)) (\<lambda>response.
          if \<not> ok response then
            io_throw (Error (''Failed to fetch image: '' @ statusText response))
          else
            io_bind (io_of (buffer response)) (\<lambda>buf.
            io_call (CanvasLoadImage buf) (canvas_loadImage w buf))))
       (\<lambda>error. io_throw error)"

definition getAbsoluteModelPath :: "('b, 'i) world \<Rightarrow> string" where
  "getAbsoluteModelPath w = path_join w (dirname w) ''models''"

text \<open>
  The callback that \<open>loadLabeledImages\<close> maps over the dataset. The destructuring is
  outside the \<open>try\<close> block. The template literals of the log lines convert \<open>id\<close> to
  text: the one at the head of the \<open>try\<close> block, the one of the no-face warning, and
  the one in the \<open>catch\<close> handler, whose throw nothing catches.
\<close>

definition dataset_callback :: "('b, 'i) world \<Rightarrow> jsval
    \<Rightarrow> (('b, 'i) event, LabeledFaceDescriptors option) io" where
  "dataset_callback w data =
     io_bind (io_of (destructure ''id'' ''imglink'' ''data'' data)) (\<lambda>(id, imglink).
       if \<not> truthy id \<or> \<not> truthy imglink then io_return None
       else
         io_catch
           (io_bind (io_of (ToString (number_toString w) id)) (\<lambda>_.
            io_bind (loadImage w imglink) (\<lambda>img.
            io_bind (io_call (DetectSingleFace img) (detectSingleFace w img)) (\<lambda>detection.
              case detection of
                None \<Rightarrow> io_bind (io_of (ToString (number_toString w) id)) (\<lambda>_. io_return None)
              | Some descriptor \<Rightarrow>
                  io_bind (io_of (toString (number_toString w) id)) (\<lambda>l.
                  io_return (Some (LabeledFaceDescriptors l [descriptor])))))))
           (\<lambda>error. io_bind (io_of (ToString (number_toString w) id)) (\<lambda>_. io_return None)))"

definition loadLabeledImages :: "('b, 'i) world \<Rightarrow> jsval list
    \<Rightarrow> (('b, 'i) event, LabeledFaceDescriptors list) io" where
  "loadLabeledImages w dataset =
     io_bind (Promise_all (map (dataset_callback w) dataset)) (\<lambda>labeledDescriptors.
     io_return (map the (filter (\<lambda>desc. desc \<noteq> None) labeledDescriptors)))"

definition load_models :: "('b, 'i) world \<Rightarrow> string \<Rightarrow> (('b, 'i) event, unit list) io" where
  "load_models w modelPath =
     Promise_all
       [io_call (LoadFromDisk FaceRecognitionNet modelPath) (loadFromDisk w FaceRecognitionNet modelPath),
        io_call (LoadFromDisk FaceLandmark68Net modelPath) (loadFromDisk w FaceLandmark68Net modelPath),
        io_call (LoadFromDisk SsdMobilenetv1 modelPath) (loadFromDisk w SsdMobilenetv1 modelPath)]"

text \<open>The response: \<open>res.status(status).json(json)\<close>; \<open>res.json(json)\<close> has status 200.\<close>

record res =
  status :: nat
  json :: jsval

definition match_json :: "FaceMatch \<Rightarrow> jsval" where
  "match_json result =
     JObj [(''label'', JStr (match_label result)), (''distance'', JNum (match_distance result))]"

text \<open>The group-image block of the handler, with its own \<open>catch\<close>.\<close>

definition group_block :: "('b, 'i) world \<Rightarrow> FaceMatcher \<Rightarrow> jsval \<Rightarrow> (('b, 'i) event, res) io" where
  "group_block w faceMatcher group_img =
     io_catch
       (io_bind (loadImage w group_img) (\<lambda>image.
        io_bind (io_call (DetectAllFaces image) (detectAllFaces w image)) (\<lambda>detections.
        io_bind (io_of (all_results
                   (map (\<lambda>d. findBestMatch (euclideanDistance w) faceMatcher d) detections)))
          (\<lambda>results.
        io_return \<lparr>status = 200,
                   json = JObj [(''success'', JBool True),
                                (''matches'', JArr (map match_json results))]\<rparr>))))
       (\<lambda>groupImageError.
          io_return \<lparr>status = 500,
                     json = JObj [(''error'', JStr ''Failed to process group image''),
                                  (''message'', JStr (message groupImageError))]\<rparr>)"

text \<open>
  The body of the outer \<open>try\<close> block of the handler of \<open>POST /\<close>. The \<open>catch\<close> of the
  model loading returns a response; \<open>returned\<close> holds it. The threshold \<open>0.6\<close> is the
  real \<open>6 / 10\<close>. The constructor of the matcher is logged as an external call.
\<close>

definition handler_body :: "('b, 'i) world \<Rightarrow> jsval \<Rightarrow> (('b, 'i) event, res) io" where
  "handler_body w body =
     io_bind (io_of (destructure ''dataset'' ''group_img'' ''req.body'' body))
       (\<lambda>(dataset, group_img).
       if \<not> truthy dataset \<or> \<not> isArray dataset then
         io_return \<lparr>status = 400,
                    json = JObj [(''error'', JStr ''Invalid dataset format''),
                                 (''received'', dataset)]\<rparr>
       else if \<not> truthy group_img then
         io_return \<lparr>status = 400, json = JObj [(''error'', JStr ''Missing group_img'')]\<rparr>
       else
         io_bind
           (io_catch
              (io_bind (load_models w (getAbsoluteModelPath w)) (\<lambda>_. io_return None))
              (\<lambda>modelError.
                 io_return (Some \<lparr>status = 500,
                   json = JObj [(''error'', JStr ''Failed to load face recognition models''),
                                (''message'', JStr (message modelError))]\<rparr>)))
           (\<lambda>returned.
              case returned of
                Some r \<Rightarrow> io_return r
              | None \<Rightarrow>
                  io_bind (loadLabeledImages w (case dataset of JArr ds \<Rightarrow> ds | _ \<Rightarrow> []))
                    (\<lambda>labeledFaceDescriptors.
                    if length labeledFaceDescriptors = 0 then
                      io_return \<lparr>status = 400,
                        json = JObj [(''error'',
                          JStr ''No valid face descriptors could be generated from the dataset'')]\<rparr>
                    else
                      io_bind (io_call (NewFaceMatcher labeledFaceDescriptors (6 / 10))
                                 (Inr \<lparr>labeledDescriptors = labeledFaceDescriptors,
                                       distanceThreshold = 6 / 10\<rparr>))
                        (\<lambda>faceMatcher. group_block w faceMatcher group_img))))"

text \<open>
  The handler: the log of its external calls and the response it sends. Whatever the
  body of the outer \<open>try\<close> throws is answered by the outer \<open>catch\<close>.
\<close>

definition post_handler :: "('b, 'i) world \<Rightarrow> jsval \<Rightarrow> ('b, 'i) event list \<times> res" where
  "post_handler w body =
     (case handler_body w body of
        (t, Inr r) \<Rightarrow> (t, r)
      | (t, Inl error) \<Rightarrow>
          (t, \<lparr>status = 500,
               json = JObj [(''error'', JStr ''Internal server error''),
                            (''message'', JStr (message error))]\<rparr>))"

section \<open>Example worlds and requests\<close>

text \<open>
  A world in which three images can be fetched: a portrait with one face, a group image
  with two faces (one close to the portrait's, one far from it) and an image without a
  face; every other URL is answered with status 404. The descriptors of the example
  have one component, so that their Euclidean distance is the absolute difference.
\<close>

definition example_world :: "(string, string) world" where
  "example_world =
     \<lparr>dirname = ''/srv/app'',
      path_join = (\<lambda>a b. a @ ''/'' @ b),
      loadFromDisk = (\<lambda>n p. Inr ()),
      fetch = (\<lambda>url.
        if url = JStr ''https://x/alice.jpg''
          then Inr \<lparr>ok = True, statusText = ''OK'', buffer = Inr ''alice''\<rparr>
        else if url = JStr ''https://x/group.jpg''
          then Inr \<lparr>ok = True, statusText = ''OK'', buffer = Inr ''group''\<rparr>
        else if url = JStr ''https://x/wall.jpg''
          then Inr \<lparr>ok = True, statusText = ''OK'', buffer = Inr ''wall''\<rparr>
        else Inr \<lparr>ok = False, statusText = ''Not Found'', buffer = Inl (Error ''no body'')\<rparr>),
      canvas_loadImage = (\<lambda>buf. Inr buf),
      detectSingleFace = (\<lambda>img. if img = ''alice'' then Inr (Some [0]) else Inr None),
      detectAllFaces = (\<lambda>img. if img = ''group'' then Inr [[1 / 10], [5]] else Inr []),
      number_toString = (\<lambda>x. if x = 7 then ''7'' else ''0''),
      euclideanDistance = (\<lambda>u v. sum_list (map2 (\<lambda>x y. \<bar>x - y\<bar>) u v))\<rparr>"


definition alice :: jsval where
  "alice = JObj [(''id'', JStr ''alice''), (''imglink'', JStr ''https://x/alice.jpg'')]"

definition request :: "jsval \<Rightarrow> jsval \<Rightarrow> jsval" where
  "request dataset group_img = JObj [(''dataset'', dataset), (''group_img'', group_img)]"


definition gone :: jsval where
  "gone = JObj [(''id'', JStr ''bob''), (''imglink'', JStr ''https://x/gone.jpg'')]"

definition wall :: jsval where
  "wall = JObj [(''id'', JNum 7), (''imglink'', JStr ''https://x/wall.jpg'')]"

definition odd_id :: jsval where
  "odd_id = JObj [(''id'', JObj [(''toString'', JNum 1)]),
                  (''imglink'', JStr ''https://x/alice.jpg'')]"

definition seven :: jsval where
  "seven = JObj [(''id'', JNum 7), (''imglink'', JStr ''https://x/alice.jpg'')]"

section \<open>The combinators\<close>

lemmas io_defs = io_return_def io_throw_def io_of_def io_call_def io_bind_def io_catch_def


lemma all_results_map_Inr: "all_results (map Inr xs) = Inr xs"
  by (induction xs) simp_all

lemma all_results_Inr_D: "all_results rs = Inr xs \<Longrightarrow> rs = map Inr xs"
  by (induction rs arbitrary: xs rule: all_results.induct) (auto split: sum.splits)

lemma all_results_Inl: "Inl e \<in> set rs \<Longrightarrow> \<exists>e'. all_results rs = Inl e'"
  by (induction rs rule: all_results.induct) (auto split: sum.splits)

section \<open>The image loader and the dataset callback, case by case\<close>

lemma loadImage_unfold:
  "loadImage w url =
     (case fetch w url of
        Inl e \<Rightarrow> ([Fetch url], Inl e)
      | Inr r \<Rightarrow>
          if \<not> ok r then ([Fetch url], Inl (Error (''Failed to fetch image: '' @ statusText r)))
          else (case buffer r of
                  Inl e \<Rightarrow> ([Fetch url], Inl e)
                | Inr buf \<Rightarrow> ([Fetch url, CanvasLoadImage buf], canvas_loadImage w buf)))"
  by (simp add: loadImage_def io_defs split: sum.splits prod.splits)

text \<open>
  For a value that is neither \<open>null\<close> nor \<open>undefined\<close>, the method call \<open>toString()\<close>
  returns what the template literal's conversion returns.
\<close>

lemma ToString_toString:
  "v \<noteq> JUndefined \<Longrightarrow> v \<noteq> JNull \<Longrightarrow> ToString nts v = Inr s \<Longrightarrow> toString nts v = Inr s"
  by (cases v) (auto split: if_splits)

lemma toString_ToString:
  "v \<noteq> JUndefined \<Longrightarrow> v \<noteq> JNull \<Longrightarrow> toString nts v = Inr s \<Longrightarrow> ToString nts v = Inr s"
  by (cases v) (auto split: if_splits)

lemma truthy_defined: "truthy v \<Longrightarrow> v \<noteq> JUndefined \<and> v \<noteq> JNull"
  by (cases v) auto

text \<open>
  The callback rejects in two cases only: the entry cannot be destructured, or the
  text conversion of a truthy \<open>id\<close> throws (in the \<open>try\<close> block and then again in the
  \<open>catch\<close> handler). In every other case it resolves, with a labeled descriptor only
  when the image loads and a face is detected.
\<close>

lemma dataset_callback_unfold:
  "dataset_callback w data =
     (case destructure ''id'' ''imglink'' ''data'' data of
        Inl e \<Rightarrow> ([], Inl e)
      | Inr (ident, imglink) \<Rightarrow>
          if \<not> truthy ident \<or> \<not> truthy imglink then ([], Inr None)
          else (case ToString (number_toString w) ident of
                  Inl e \<Rightarrow> ([], Inl e)
                | Inr s \<Rightarrow>
                    (case loadImage w imglink of
                       (t, Inl e) \<Rightarrow> (t, Inr None)
                     | (t, Inr img) \<Rightarrow>
                         (case detectSingleFace w img of
                            Inl e \<Rightarrow> (t @ [DetectSingleFace img], Inr None)
                          | Inr None \<Rightarrow> (t @ [DetectSingleFace img], Inr None)
                          | Inr (Some d) \<Rightarrow>
                              (t @ [DetectSingleFace img],
                               Inr (Some (LabeledFaceDescriptors s [d])))))))"
  by (auto simp: dataset_callback_def io_defs ToString_toString dest!: truthy_defined
      split: sum.splits prod.splits option.splits)

section \<open>The reference processor and the handler, case by case\<close>

lemma load_models_fst:
  "fst (load_models w p) =
     [LoadFromDisk FaceRecognitionNet p, LoadFromDisk FaceLandmark68Net p, LoadFromDisk SsdMobilenetv1 p]"
  by (simp add: load_models_def Promise_all_def io_defs)

lemma loadLabeledImages_fst:
  "fst (loadLabeledImages w ds) = concat (map (\<lambda>e. fst (dataset_callback w e)) ds)"
  by (simp add: loadLabeledImages_def Promise_all_def io_defs comp_def split: sum.splits)

lemma loadLabeledImages_snd:
  "snd (loadLabeledImages w ds) =
     (case all_results (map (\<lambda>e. snd (dataset_callback w e)) ds) of
        Inl e \<Rightarrow> Inl e
      | Inr rs \<Rightarrow> Inr (map the (filter (\<lambda>desc. desc \<noteq> None) rs)))"
  by (simp add: loadLabeledImages_def Promise_all_def io_defs comp_def split: sum.splits)

lemma group_block_unfold:
  "group_block w m g =
     (case loadImage w g of
        (t, Inl e) \<Rightarrow>
          (t, Inr \<lparr>status = 500,
                   json = JObj [(''error'', JStr ''Failed to process group image''),
                                (''message'', JStr (message e))]\<rparr>)
      | (t, Inr img) \<Rightarrow>
          (case detectAllFaces w img of
             Inl e \<Rightarrow>
               (t @ [DetectAllFaces img],
                Inr \<lparr>status = 500,
                     json = JObj [(''error'', JStr ''Failed to process group image''),
                                  (''message'', JStr (message e))]\<rparr>)
           | Inr faces \<Rightarrow>
               (case all_results (map (findBestMatch (euclideanDistance w) m) faces) of
                  Inl e \<Rightarrow>
                    (t @ [DetectAllFaces img],
                     Inr \<lparr>status = 500,
                          json = JObj [(''error'', JStr ''Failed to process group image''),
                                       (''message'', JStr (message e))]\<rparr>)
                | Inr results \<Rightarrow>
                    (t @ [DetectAllFaces img],
                     Inr \<lparr>status = 200,
                          json = JObj [(''success'', JBool True),
                                       (''matches'', JArr (map match_json results))]\<rparr>))))"
  by (simp add: group_block_def io_defs split: sum.splits prod.splits)

lemma handler_body_invalid_dataset:
  assumes "destructure ''dataset'' ''group_img'' ''req.body'' body = Inr (dataset, group_img)"
    and "\<not> isArray dataset"
  shows "handler_body w body =
     ([], Inr \<lparr>status = 400,
               json = JObj [(''error'', JStr ''Invalid dataset format''), (''received'', dataset)]\<rparr>)"
  using assms by (simp add: handler_body_def io_defs)

lemma handler_body_missing_group_img:
  assumes "destructure ''dataset'' ''group_img'' ''req.body'' body = Inr (dataset, group_img)"
    and "isArray dataset" and "\<not> truthy group_img"
  shows "handler_body w body =
     ([], Inr \<lparr>status = 400, json = JObj [(''error'', JStr ''Missing group_img'')]\<rparr>)"
  using assms by (cases dataset) (simp_all add: handler_body_def io_defs)

lemma handler_body_valid:
  assumes "destructure ''dataset'' ''group_img'' ''req.body'' body = Inr (JArr ds, group_img)"
    and "truthy group_img"
  shows "handler_body w body =
     (case snd (load_models w (getAbsoluteModelPath w)) of
        Inl e \<Rightarrow>
          (fst (load_models w (getAbsoluteModelPath w)),
           Inr \<lparr>status = 500,
                json = JObj [(''error'', JStr ''Failed to load face recognition models''),
                             (''message'', JStr (message e))]\<rparr>)
      | Inr us \<Rightarrow>
          (case loadLabeledImages w ds of
             (t, Inl e) \<Rightarrow> (fst (load_models w (getAbsoluteModelPath w)) @ t, Inl e)
           | (t, Inr lds) \<Rightarrow>
               if lds = [] then
                 (fst (load_models w (getAbsoluteModelPath w)) @ t,
                  Inr \<lparr>status = 400,
                       json = JObj [(''error'',
                         JStr ''No valid face descriptors could be generated from the dataset'')]\<rparr>)
               else
                 (case group_block w \<lparr>labeledDescriptors = lds, distanceThreshold = 6 / 10\<rparr>
                         group_img of
                    (t', r) \<Rightarrow>
                      (fst (load_models w (getAbsoluteModelPath w)) @ t
                         @ [NewFaceMatcher lds (6 / 10)] @ t', r))))"
  using assms
  by (cases "load_models w (getAbsoluteModelPath w)")
     (simp add: handler_body_def io_defs split: sum.splits prod.splits)

lemma post_handler_invalid_dataset:
  assumes "destructure ''dataset'' ''group_img'' ''req.body'' body = Inr (dataset, group_img)"
    and "\<not> isArray dataset"
  shows "post_handler w body =
     ([], \<lparr>status = 400,
           json = JObj [(''error'', JStr ''Invalid dataset format''), (''received'', dataset)]\<rparr>)"
  by (simp add: post_handler_def handler_body_invalid_dataset [OF assms])

lemma post_handler_missing_group_img:
  assumes "destructure ''dataset'' ''group_img'' ''req.body'' body = Inr (dataset, group_img)"
    and "isArray dataset" and "\<not> truthy group_img"
  shows "post_handler w body =
     ([], \<lparr>status = 400, json = JObj [(''error'', JStr ''Missing group_img'')]\<rparr>)"
  by (simp add: post_handler_def handler_body_missing_group_img [OF assms])

lemma destructure_request:
  "destructure ''dataset'' ''group_img'' ''req.body'' (request dataset group_img)
     = Inr (dataset, group_img)"
  by (simp add: destructure_def request_def)

section \<open>Input validation\<close>

text \<open>
  Claim C4. For every request body whose \<open>dataset\<close> field is absent or not an array, the
  handler responds 400 with the body \<open>{error: "Invalid dataset format", received:
  dataset}\<close>; for every request body with an array \<open>dataset\<close> and a falsy or absent
  \<open>group_img\<close>, it responds 400 with \<open>{error: "Missing group_img"}\<close>. A request body is
  a value whose fields can be read (the body parser yields an object or an array); an
  absent field reads as \<open>undefined\<close>, which is not an array. The body of the response is
  the object handed to \<open>res.json\<close>.
\<close>

theorem invalid_input_400:
  assumes "destructure ''dataset'' ''group_img'' ''req.body'' body = Inr (dataset, group_img)"
  shows "(\<not> isArray dataset \<longrightarrow>
            snd (post_handler w body) =
              \<lparr>status = 400,
               json = JObj [(''error'', JStr ''Invalid dataset format''),
                            (''received'', dataset)]\<rparr>)
       \<and> (isArray dataset \<and> \<not> truthy group_img \<longrightarrow>
            snd (post_handler w body) =
              \<lparr>status = 400, json = JObj [(''error'', JStr ''Missing group_img'')]\<rparr>)"
  using post_handler_invalid_dataset [OF assms, of w] post_handler_missing_group_img [OF assms, of w]
  by simp

theorem invalid_input_400_witness:
  "snd (post_handler example_world (JObj [(''group_img'', JStr ''https://x/group.jpg'')])) =
     \<lparr>status = 400,
      json = JObj [(''error'', JStr ''Invalid dataset format''), (''received'', JUndefined)]\<rparr>
   \<and> snd (post_handler example_world (request (JStr ''alice'') JNull)) =
     \<lparr>status = 400,
      json = JObj [(''error'', JStr ''Invalid dataset format''), (''received'', JStr ''alice'')]\<rparr>
   \<and> snd (post_handler example_world (request (JArr [alice]) (JStr []))) =
     \<lparr>status = 400, json = JObj [(''error'', JStr ''Missing group_img'')]\<rparr>"
proof -
  have a: "destructure ''dataset'' ''group_img'' ''req.body''
             (JObj [(''group_img'', JStr ''https://x/group.jpg'')])
           = Inr (JUndefined, JStr ''https://x/group.jpg'')"
    by (simp add: destructure_def)
  show ?thesis
    using invalid_input_400 [where w = example_world, OF a]
      invalid_input_400 [where w = example_world, OF destructure_request [of "JStr ''alice''" JNull]]
      invalid_input_400 [where w = example_world, OF destructure_request [of "JArr [alice]" "JStr []"]]
    by simp
qed

text \<open>
  Claim C10. The \<open>dataset\<close> check comes before the \<open>group_img\<close> check: when both fields
  are invalid the response is the one for the dataset. Every 400 response of the
  validation is sent with an empty log: no model has been loaded and nothing fetched.
\<close>

theorem validation_precedes_effects:
  assumes "destructure ''dataset'' ''group_img'' ''req.body'' body = Inr (dataset, group_img)"
  shows "(\<not> isArray dataset \<and> \<not> truthy group_img \<longrightarrow>
            json (snd (post_handler w body)) =
              JObj [(''error'', JStr ''Invalid dataset format''), (''received'', dataset)])
       \<and> (\<not> isArray dataset \<or> \<not> truthy group_img \<longrightarrow>
            fst (post_handler w body) = [] \<and> status (snd (post_handler w body)) = 400)"
  using post_handler_invalid_dataset [OF assms, of w] post_handler_missing_group_img [OF assms, of w]
  by (cases "isArray dataset") simp_all

theorem validation_precedes_effects_witness:
  "json (snd (post_handler example_world (request JNull (JNum 0)))) =
     JObj [(''error'', JStr ''Invalid dataset format''), (''received'', JNull)]
   \<and> fst (post_handler example_world (request JNull (JNum 0))) = []
   \<and> status (snd (post_handler example_world (request JNull (JNum 0)))) = 400
   \<and> fst (post_handler example_world (request (JArr [alice]) JUndefined)) = []
   \<and> status (snd (post_handler example_world (request (JArr [alice]) JUndefined))) = 400"
  using validation_precedes_effects [where w = example_world, OF destructure_request [of JNull "JNum 0"]]
    validation_precedes_effects [where w = example_world,
      OF destructure_request [of "JArr [alice]" JUndefined]]
  by simp

section \<open>Model loading\<close>



section \<open>Events of the reference processor; the matcher\<close>

lemma loadImage_events:
  "ev \<in> set (fst (loadImage w url)) \<Longrightarrow> ev = Fetch url \<or> (\<exists>buf. ev = CanvasLoadImage buf)"
  by (auto simp: loadImage_unfold split: sum.splits if_splits)

lemma dataset_callback_events:
  assumes "ev \<in> set (fst (dataset_callback w e))"
  shows "(\<exists>u. ev = Fetch u) \<or> (\<exists>b. ev = CanvasLoadImage b) \<or> (\<exists>i. ev = DetectSingleFace i)"
proof -
  have "\<And>i l t r. loadImage w l = (t, r) \<Longrightarrow> ev \<in> set t \<Longrightarrow>
          ev = Fetch l \<or> (\<exists>buf. ev = CanvasLoadImage buf)"
    using loadImage_events [of ev w] by (metis fst_conv)
  with assms show ?thesis
    by (auto simp: dataset_callback_unfold split: sum.splits prod.splits if_splits option.splits)
qed

lemma loadLabeledImages_events:
  assumes "ev \<in> set (fst (loadLabeledImages w ds))"
  shows "(\<exists>u. ev = Fetch u) \<or> (\<exists>b. ev = CanvasLoadImage b) \<or> (\<exists>i. ev = DetectSingleFace i)"
  using assms dataset_callback_events [of ev w] by (auto simp: loadLabeledImages_fst)

lemma dataset_callback_single:
  "snd (dataset_callback w e) = Inr (Some ld) \<Longrightarrow> \<exists>d. descriptors ld = [d]"
  by (auto simp: dataset_callback_unfold split: sum.splits prod.splits if_splits option.splits)

lemma loadLabeledImages_single:
  assumes "snd (loadLabeledImages w ds) = Inr lds" and "ld \<in> set lds"
  shows "\<exists>d. descriptors ld = [d]"
proof -
  from assms(1) obtain rs where rs: "all_results (map (\<lambda>e. snd (dataset_callback w e)) ds) = Inr rs"
    and lds: "lds = map the (filter (\<lambda>desc. desc \<noteq> None) rs)"
    by (auto simp: loadLabeledImages_snd split: sum.splits)
  from lds assms(2) have "Some ld \<in> set rs" by auto
  moreover from rs have "map (\<lambda>e. snd (dataset_callback w e)) ds = map Inr rs"
    by (rule all_results_Inr_D)
  ultimately have "Inr (Some ld) \<in> set (map (\<lambda>e. snd (dataset_callback w e)) ds)"
    by simp
  then obtain e where "snd (dataset_callback w e) = Inr (Some ld)" by auto
  then show ?thesis by (rule dataset_callback_single)
qed

lemma closest_None: "closest distance q ps = None \<longleftrightarrow> ps = []"
  by (induction ps rule: closest.induct) (auto split: option.splits)

lemma closest_least:
  "closest distance q ps = Some m \<Longrightarrow> (l, v) \<in> set ps \<Longrightarrow> match_distance m \<le> distance v q"
proof (induction ps arbitrary: m rule: closest.induct)
  case (1 distance q)
  then show ?case by simp
next
  case (2 distance q l' v' rest)
  then show ?case by (fastforce split: option.splits if_splits simp: closest_None)
qed

lemma closest_member:
  "closest distance q ps = Some m \<Longrightarrow> \<exists>(l, v) \<in> set ps. m = FaceMatch l (distance v q)"
  by (induction ps arbitrary: m rule: closest.induct) (auto split: option.splits if_splits)

lemma labeled_vectors_nonempty:
  assumes "lds \<noteq> []" and "\<And>ld. ld \<in> set lds \<Longrightarrow> \<exists>d. descriptors ld = [d]"
  shows "labeled_vectors lds \<noteq> []"
proof (cases lds)
  case Nil
  with assms(1) show ?thesis by simp
next
  case (Cons ld rest)
  with assms(2) [of ld] show ?thesis by (auto simp: labeled_vectors_def)
qed

lemma findBestMatch_total:
  assumes "labeled_vectors (labeledDescriptors m) \<noteq> []"
  shows "\<exists>r. findBestMatch distance m q = Inr r"
  using assms by (auto simp: findBestMatch_def closest_None split: option.splits)

lemma findBestMatch_all:
  assumes "labeled_vectors (labeledDescriptors m) \<noteq> []"
  shows "\<exists>results. all_results (map (findBestMatch distance m) faces) = Inr results
           \<and> map (findBestMatch distance m) faces = map Inr results"
proof -
  have "\<forall>q. \<exists>r. findBestMatch distance m q = Inr r"
    using findBestMatch_total [OF assms] by blast
  then obtain f where f: "\<And>q. findBestMatch distance m q = Inr (f q)" by metis
  then have "map (findBestMatch distance m) faces = map Inr (map f faces)" by simp
  then show ?thesis using all_results_map_Inr by metis
qed

lemma findBestMatch_unknown:
  assumes "findBestMatch distance m q = Inr r"
    and "\<And>l v. (l, v) \<in> set (labeled_vectors (labeledDescriptors m))
           \<Longrightarrow> distanceThreshold m < distance v q"
  shows "match_label r = ''unknown''"
proof -
  from assms(1) obtain best where
    best: "closest distance q (labeled_vectors (labeledDescriptors m)) = Some best"
    by (auto simp: findBestMatch_def split: option.splits)
  from closest_member [OF best] assms(2) have "distanceThreshold m < match_distance best"
    by auto
  with assms(1) best show ?thesis by (auto simp: findBestMatch_def)
qed

section \<open>The example world, evaluated\<close>

lemma example_path: "getAbsoluteModelPath example_world = ''/srv/app/models''"
  by (simp add: getAbsoluteModelPath_def example_world_def)

lemma example_models: "snd (load_models example_world p) = Inr [(), (), ()]"
  by (simp add: load_models_def Promise_all_def io_defs example_world_def)

lemma example_alice_callback:
  "dataset_callback example_world alice =
     ([Fetch (JStr ''https://x/alice.jpg''), CanvasLoadImage ''alice'', DetectSingleFace ''alice''],
      Inr (Some (LabeledFaceDescriptors ''alice'' [[0]])))"
  by (simp add: dataset_callback_unfold loadImage_unfold destructure_def alice_def example_world_def)

lemma example_alice:
  "snd (loadLabeledImages example_world [alice]) = Inr [LabeledFaceDescriptors ''alice'' [[0]]]"
  by (simp add: loadLabeledImages_snd example_alice_callback)

lemma example_group:
  "loadImage example_world (JStr ''https://x/group.jpg'') =
     ([Fetch (JStr ''https://x/group.jpg''), CanvasLoadImage ''group''], Inr ''group'')"
  by (simp add: loadImage_unfold example_world_def)

lemma example_faces: "detectAllFaces example_world ''group'' = Inr [[1 / 10], [5]]"
  by (simp add: example_world_def)

lemma example_distance: "euclideanDistance example_world [x] [y] = \<bar>x - y\<bar>"
  by (simp add: example_world_def)

lemma post_handler_no_descriptors:
  assumes "destructure ''dataset'' ''group_img'' ''req.body'' body = Inr (JArr ds, group_img)"
    and "truthy group_img"
    and "snd (load_models w (getAbsoluteModelPath w)) = Inr us"
    and "snd (loadLabeledImages w ds) = Inr []"
  shows "post_handler w body =
     (fst (load_models w (getAbsoluteModelPath w)) @ fst (loadLabeledImages w ds),
      \<lparr>status = 400,
       json = JObj [(''error'',
         JStr ''No valid face descriptors could be generated from the dataset'')]\<rparr>)"
  using assms(3,4)
  by (cases "loadLabeledImages w ds")
     (simp add: post_handler_def handler_body_valid [OF assms(1,2)])

lemma post_handler_matcher:
  assumes "destructure ''dataset'' ''group_img'' ''req.body'' body = Inr (JArr ds, group_img)"
    and "truthy group_img"
    and "snd (load_models w (getAbsoluteModelPath w)) = Inr us"
    and "snd (loadLabeledImages w ds) = Inr lds" and "lds \<noteq> []"
  shows "post_handler w body =
     (fst (load_models w (getAbsoluteModelPath w)) @ fst (loadLabeledImages w ds)
        @ [NewFaceMatcher lds (6 / 10)]
        @ fst (group_block w \<lparr>labeledDescriptors = lds, distanceThreshold = 6 / 10\<rparr> group_img),
      case snd (group_block w \<lparr>labeledDescriptors = lds, distanceThreshold = 6 / 10\<rparr> group_img) of
        Inr r \<Rightarrow> r
      | Inl error \<Rightarrow>
          \<lparr>status = 500,
           json = JObj [(''error'', JStr ''Internal server error''),
                        (''message'', JStr (message error))]\<rparr>)"
  using assms(3,4,5)
  by (cases "loadLabeledImages w ds";
      cases "group_block w \<lparr>labeledDescriptors = lds, distanceThreshold = 6 / 10\<rparr> group_img")
     (simp add: post_handler_def handler_body_valid [OF assms(1,2)] split: sum.splits)

section \<open>No labeled descriptor\<close>

text \<open>
  Claim C5. For every request that passes the validation (and whose models load), if
  the reference processor returns no labeled descriptor, the handler responds 400 with
  the error \<open>No valid face descriptors could be generated from the dataset\<close>; its log
  holds the model loads and the calls of the reference processor and nothing after
  them, so the group image is not fetched, and no matcher is constructed. The reference
  processor returns no labeled descriptor for the empty array in particular.
\<close>

theorem no_descriptors_400:
  assumes "destructure ''dataset'' ''group_img'' ''req.body'' body = Inr (JArr ds, group_img)"
    and "truthy group_img"
    and "snd (load_models w (getAbsoluteModelPath w)) = Inr us"
    and "snd (loadLabeledImages w ds) = Inr []"
  shows "snd (post_handler w body) =
           \<lparr>status = 400,
            json = JObj [(''error'',
              JStr ''No valid face descriptors could be generated from the dataset'')]\<rparr>
       \<and> fst (post_handler w body) =
           fst (load_models w (getAbsoluteModelPath w)) @ fst (loadLabeledImages w ds)
       \<and> (\<forall>lds t. NewFaceMatcher lds t \<notin> set (fst (post_handler w body)))
       \<and> snd (loadLabeledImages w []) = Inr []"
proof -
  have "\<And>lds t. NewFaceMatcher lds t \<notin> set (fst (loadLabeledImages w ds))"
    using loadLabeledImages_events by blast
  then show ?thesis
    by (simp add: post_handler_no_descriptors [OF assms] load_models_fst loadLabeledImages_snd)
qed

theorem no_descriptors_400_witness:
  "post_handler example_world (request (JArr []) (JStr ''https://x/group.jpg'')) =
     ([LoadFromDisk FaceRecognitionNet ''/srv/app/models'',
       LoadFromDisk FaceLandmark68Net ''/srv/app/models'',
       LoadFromDisk SsdMobilenetv1 ''/srv/app/models''],
      \<lparr>status = 400,
       json = JObj [(''error'',
         JStr ''No valid face descriptors could be generated from the dataset'')]\<rparr>)"
proof -
  have t: "truthy (JStr ''https://x/group.jpg'')" by simp
  have m: "snd (load_models example_world (getAbsoluteModelPath example_world)) = Inr [(), (), ()]"
    by (rule example_models)
  have l: "snd (loadLabeledImages example_world []) = Inr []"
    by (simp add: loadLabeledImages_snd)
  have f: "fst (loadLabeledImages example_world []) = []"
    by (simp add: loadLabeledImages_fst)
  show ?thesis
    using no_descriptors_400 [OF destructure_request t m l] f
    by (simp add: prod_eq_iff load_models_fst example_path)
qed

section \<open>The remote image loader\<close>

text \<open>
  Claim C6. For every URL whose fetch resolves with a response that is not \<open>ok\<close>, the
  image loader throws the error whose message is \<open>Failed to fetch image: \<close> followed
  by the status text of the response, and returns no image. When that URL is the group
  image of a request that reaches the group-image block, the handler responds 500 with
  \<open>{error: "Failed to process group image", message}\<close>, \<open>message\<close> being that message.
\<close>

theorem failed_fetch_reported:
  assumes "fetch w url = Inr r" and "\<not> ok r"
  shows "snd (loadImage w url) = Inl (Error (''Failed to fetch image: '' @ statusText r))
       \<and> (\<forall>body ds us lds.
            destructure ''dataset'' ''group_img'' ''req.body'' body = Inr (JArr ds, url)
            \<and> truthy url
            \<and> snd (load_models w (getAbsoluteModelPath w)) = Inr us
            \<and> snd (loadLabeledImages w ds) = Inr lds \<and> lds \<noteq> [] \<longrightarrow>
            snd (post_handler w body) =
              \<lparr>status = 500,
               json = JObj [(''error'', JStr ''Failed to process group image''),
                            (''message'',
                             JStr (''Failed to fetch image: '' @ statusText r))]\<rparr>)"
proof -
  have l: "loadImage w url = ([Fetch url], Inl (Error (''Failed to fetch image: '' @ statusText r)))"
    using assms by (simp add: loadImage_unfold)
  show ?thesis
  proof (intro conjI allI impI)
    show "snd (loadImage w url) = Inl (Error (''Failed to fetch image: '' @ statusText r))"
      by (simp add: l)
  next
    fix body ds us lds
    assume h: "destructure ''dataset'' ''group_img'' ''req.body'' body = Inr (JArr ds, url)
            \<and> truthy url
            \<and> snd (load_models w (getAbsoluteModelPath w)) = Inr us
            \<and> snd (loadLabeledImages w ds) = Inr lds \<and> lds \<noteq> []"
    then show "snd (post_handler w body) =
              \<lparr>status = 500,
               json = JObj [(''error'', JStr ''Failed to process group image''),
                            (''message'',
                             JStr (''Failed to fetch image: '' @ statusText r))]\<rparr>"
      by (simp add: post_handler_matcher [of body ds url w us lds] group_block_unfold l)
  qed
qed

theorem failed_fetch_reported_witness:
  "snd (loadImage example_world (JStr ''https://x/gone.jpg''))
     = Inl (Error ''Failed to fetch image: Not Found'')
   \<and> snd (post_handler example_world (request (JArr [alice]) (JStr ''https://x/gone.jpg''))) =
       \<lparr>status = 500,
        json = JObj [(''error'', JStr ''Failed to process group image''),
                     (''message'', JStr ''Failed to fetch image: Not Found'')]\<rparr>"
proof -
  have f: "fetch example_world (JStr ''https://x/gone.jpg'')
             = Inr \<lparr>ok = False, statusText = ''Not Found'', buffer = Inl (Error ''no body'')\<rparr>"
    by (simp add: example_world_def)
  have n: "\<not> ok \<lparr>ok = False, statusText = ''Not Found'', buffer = Inl (Error ''no body'')\<rparr>"
    by simp
  have t: "truthy (JStr ''https://x/gone.jpg'')" by simp
  have m: "snd (load_models example_world (getAbsoluteModelPath example_world)) = Inr [(), (), ()]"
    by (rule example_models)
  from failed_fetch_reported [OF f n] destructure_request t m example_alice
  show ?thesis by simp
qed

lemma post_handler_success:
  assumes "destructure ''dataset'' ''group_img'' ''req.body'' body = Inr (JArr ds, group_img)"
    and "truthy group_img"
    and "snd (load_models w (getAbsoluteModelPath w)) = Inr us"
    and "snd (loadLabeledImages w ds) = Inr lds" and "lds \<noteq> []"
    and "snd (loadImage w group_img) = Inr img"
    and "detectAllFaces w img = Inr faces"
  shows "\<exists>results.
     map (findBestMatch (euclideanDistance w)
            \<lparr>labeledDescriptors = lds, distanceThreshold = 6 / 10\<rparr>) faces = map Inr results
     \<and> post_handler w body =
         (fst (load_models w (getAbsoluteModelPath w)) @ fst (loadLabeledImages w ds)
            @ [NewFaceMatcher lds (6 / 10)] @ fst (loadImage w group_img) @ [DetectAllFaces img],
          \<lparr>status = 200,
           json = JObj [(''success'', JBool True),
                        (''matches'', JArr (map match_json results))]\<rparr>)"
proof -
  let ?m = "\<lparr>labeledDescriptors = lds, distanceThreshold = 6 / 10\<rparr>"
  have "labeled_vectors (labeledDescriptors ?m) \<noteq> []"
    using labeled_vectors_nonempty [OF assms(5)] loadLabeledImages_single [OF assms(4)]
    by simp
  from findBestMatch_all [OF this, of "euclideanDistance w" faces]
  obtain results where
    r: "all_results (map (findBestMatch (euclideanDistance w) ?m) faces) = Inr results"
    and e: "map (findBestMatch (euclideanDistance w) ?m) faces = map Inr results"
    by blast
  have "group_block w ?m group_img =
          (fst (loadImage w group_img) @ [DetectAllFaces img],
           Inr \<lparr>status = 200,
                json = JObj [(''success'', JBool True),
                             (''matches'', JArr (map match_json results))]\<rparr>)"
    using assms(6,7) r by (cases "loadImage w group_img") (simp add: group_block_unfold)
  then have "post_handler w body =
         (fst (load_models w (getAbsoluteModelPath w)) @ fst (loadLabeledImages w ds)
            @ [NewFaceMatcher lds (6 / 10)] @ fst (loadImage w group_img) @ [DetectAllFaces img],
          \<lparr>status = 200,
           json = JObj [(''success'', JBool True),
                        (''matches'', JArr (map match_json results))]\<rparr>)"
    by (simp add: post_handler_matcher [OF assms(1-5)])
  with e show ?thesis by blast
qed

lemma map_eq_map_Inr:
  assumes "map f xs = map Inr rs"
  shows "length rs = length xs \<and> (\<forall>i<length xs. f (xs ! i) = Inr (rs ! i))"
proof -
  from assms have l: "length xs = length rs" by (rule map_eq_imp_length_eq)
  have "\<And>i. i < length xs \<Longrightarrow> f (xs ! i) = Inr (rs ! i)"
  proof -
    fix i assume i: "i < length xs"
    then have "f (xs ! i) = map f xs ! i" by simp
    also have "\<dots> = map Inr rs ! i" using assms by simp
    also have "\<dots> = Inr (rs ! i)" using i l by simp
    finally show "f (xs ! i) = Inr (rs ! i)" .
  qed
  with l show ?thesis by simp
qed

section \<open>The matches of a successful request\<close>

text \<open>
  Claim C1. For every request whose dataset yields a non-empty list of labeled
  descriptors and whose group image loads and decodes, if the detector finds the faces
  \<open>faces\<close> in the group image, the handler responds 200 with \<open>{success: true, matches}\<close>
  where \<open>matches\<close> has one entry per face, in the detector's order, the entry of a
  face being \<open>{label, distance}\<close> of the best match the matcher returns for the face's
  descriptor.
\<close>

theorem matches_per_face:
  assumes "destructure ''dataset'' ''group_img'' ''req.body'' body = Inr (JArr ds, group_img)"
    and "truthy group_img"
    and "snd (load_models w (getAbsoluteModelPath w)) = Inr us"
    and "snd (loadLabeledImages w ds) = Inr lds" and "lds \<noteq> []"
    and "snd (loadImage w group_img) = Inr img"
    and "detectAllFaces w img = Inr faces"
  shows "\<exists>results.
     snd (post_handler w body) =
       \<lparr>status = 200,
        json = JObj [(''success'', JBool True), (''matches'', JArr (map match_json results))]\<rparr>
     \<and> length results = length faces
     \<and> (\<forall>i<length faces.
          findBestMatch (euclideanDistance w)
            \<lparr>labeledDescriptors = lds, distanceThreshold = 6 / 10\<rparr> (faces ! i)
          = Inr (results ! i))"
proof -
  from post_handler_success [OF assms] obtain results where
    e: "map (findBestMatch (euclideanDistance w)
            \<lparr>labeledDescriptors = lds, distanceThreshold = 6 / 10\<rparr>) faces = map Inr results"
    and p: "snd (post_handler w body) =
       \<lparr>status = 200,
        json = JObj [(''success'', JBool True), (''matches'', JArr (map match_json results))]\<rparr>"
    by force
  from map_eq_map_Inr [OF e] p show ?thesis by blast
qed

lemma example_findBestMatch_near:
  "findBestMatch (euclideanDistance example_world)
     \<lparr>labeledDescriptors = [LabeledFaceDescriptors ''alice'' [[0]]], distanceThreshold = 6 / 10\<rparr>
     [1 / 10] = Inr (FaceMatch ''alice'' (1 / 10))"
  by (simp add: findBestMatch_def labeled_vectors_def example_distance)

lemma example_findBestMatch_far:
  "findBestMatch (euclideanDistance example_world)
     \<lparr>labeledDescriptors = [LabeledFaceDescriptors ''alice'' [[0]]], distanceThreshold = 6 / 10\<rparr>
     [5] = Inr (FaceMatch ''unknown'' 5)"
  by (simp add: findBestMatch_def labeled_vectors_def example_distance)

lemma list_of_two: "length xs = 2 \<Longrightarrow> xs = [xs ! 0, xs ! 1]"
  by (cases xs; cases "tl xs") auto

theorem matches_per_face_witness:
  "snd (post_handler example_world (request (JArr [alice]) (JStr ''https://x/group.jpg''))) =
     \<lparr>status = 200,
      json = JObj [(''success'', JBool True),
                   (''matches'',
                    JArr [JObj [(''label'', JStr ''alice''), (''distance'', JNum (1 / 10))],
                          JObj [(''label'', JStr ''unknown''), (''distance'', JNum 5)]])]\<rparr>"
proof -
  have t: "truthy (JStr ''https://x/group.jpg'')" by simp
  have m: "snd (load_models example_world (getAbsoluteModelPath example_world)) = Inr [(), (), ()]"
    by (rule example_models)
  have n: "[LabeledFaceDescriptors ''alice'' [[0]]] \<noteq> []" by simp
  have g: "snd (loadImage example_world (JStr ''https://x/group.jpg'')) = Inr ''group''"
    by (simp add: example_group)
  from matches_per_face [OF destructure_request t m example_alice n g example_faces]
  obtain results where
    p: "snd (post_handler example_world (request (JArr [alice]) (JStr ''https://x/group.jpg''))) =
       \<lparr>status = 200,
        json = JObj [(''success'', JBool True), (''matches'', JArr (map match_json results))]\<rparr>"
    and l: "length results = 2"
    and f: "\<forall>i<2. findBestMatch (euclideanDistance example_world)
            \<lparr>labeledDescriptors = [LabeledFaceDescriptors ''alice'' [[0]]],
             distanceThreshold = 6 / 10\<rparr> ([[1 / 10], [5]] ! i)
          = Inr (results ! i)"
    by auto
  have "results ! 0 = FaceMatch ''alice'' (1 / 10)"
    using f [rule_format, of 0] example_findBestMatch_near by simp
  moreover have "results ! 1 = FaceMatch ''unknown'' 5"
    using f [rule_format, of 1] example_findBestMatch_far by simp
  ultimately have "results = [FaceMatch ''alice'' (1 / 10), FaceMatch ''unknown'' 5]"
    using list_of_two [OF l] by simp
  with p show ?thesis by (simp add: match_json_def)
qed

text \<open>
  Claim C8. The one matcher that the handler constructs is given the surviving labeled
  descriptors and the threshold 0.6, and it is the matcher queried for each face of the
  group image. By the matcher's convention, a face whose distance to every labeled
  descriptor exceeds 0.6 (its nearest labeled distance exceeds 0.6) is labeled
  \<open>unknown\<close>.
\<close>

theorem matcher_threshold:
  assumes "destructure ''dataset'' ''group_img'' ''req.body'' body = Inr (JArr ds, group_img)"
    and "truthy group_img"
    and "snd (load_models w (getAbsoluteModelPath w)) = Inr us"
    and "snd (loadLabeledImages w ds) = Inr lds" and "lds \<noteq> []"
    and "snd (loadImage w group_img) = Inr img"
    and "detectAllFaces w img = Inr faces"
  shows "(\<forall>m t. NewFaceMatcher m t \<in> set (fst (post_handler w body)) \<longleftrightarrow> m = lds \<and> t = 6 / 10)
     \<and> (\<exists>results.
          json (snd (post_handler w body)) =
            JObj [(''success'', JBool True), (''matches'', JArr (map match_json results))]
          \<and> length results = length faces
          \<and> (\<forall>i<length faces.
               findBestMatch (euclideanDistance w)
                 \<lparr>labeledDescriptors = lds, distanceThreshold = 6 / 10\<rparr> (faces ! i)
               = Inr (results ! i)
               \<and> ((\<forall>ld\<in>set lds. \<forall>v\<in>set (descriptors ld).
                      6 / 10 < euclideanDistance w v (faces ! i))
                    \<longrightarrow> match_label (results ! i) = ''unknown'')))"
proof -
  let ?m = "\<lparr>labeledDescriptors = lds, distanceThreshold = 6 / 10\<rparr>"
  from post_handler_success [OF assms] obtain results where
    e: "map (findBestMatch (euclideanDistance w) ?m) faces = map Inr results"
    and p: "post_handler w body =
         (fst (load_models w (getAbsoluteModelPath w)) @ fst (loadLabeledImages w ds)
            @ [NewFaceMatcher lds (6 / 10)] @ fst (loadImage w group_img) @ [DetectAllFaces img],
          \<lparr>status = 200,
           json = JObj [(''success'', JBool True),
                        (''matches'', JArr (map match_json results))]\<rparr>)"
    by blast
  have a: "\<And>m t. NewFaceMatcher m t \<notin> set (fst (loadLabeledImages w ds))"
    using loadLabeledImages_events by blast
  have b: "\<And>m t. NewFaceMatcher m t \<notin> set (fst (loadImage w group_img))"
    using loadImage_events by blast
  have first: "\<forall>m t. NewFaceMatcher m t \<in> set (fst (post_handler w body))
                 \<longleftrightarrow> m = lds \<and> t = 6 / 10"
    using a b by (auto simp: p load_models_fst)
  have f: "length results = length faces"
    and g: "\<forall>i<length faces. findBestMatch (euclideanDistance w) ?m (faces ! i) = Inr (results ! i)"
    using map_eq_map_Inr [OF e] by simp_all
  have u: "\<And>i. i < length faces \<Longrightarrow>
             \<forall>ld\<in>set lds. \<forall>v\<in>set (descriptors ld). 6 / 10 < euclideanDistance w v (faces ! i) \<Longrightarrow>
             match_label (results ! i) = ''unknown''"
  proof -
    fix i assume i: "i < length faces"
      and far: "\<forall>ld\<in>set lds. \<forall>v\<in>set (descriptors ld). 6 / 10 < euclideanDistance w v (faces ! i)"
    from g i have r: "findBestMatch (euclideanDistance w) ?m (faces ! i) = Inr (results ! i)"
      by simp
    show "match_label (results ! i) = ''unknown''"
    proof (rule findBestMatch_unknown [OF r])
      fix l v assume "(l, v) \<in> set (labeled_vectors (labeledDescriptors ?m))"
      then obtain ld where "ld \<in> set lds" and "v \<in> set (descriptors ld)"
        by (auto simp: labeled_vectors_def)
      with far show "distanceThreshold ?m < euclideanDistance w v (faces ! i)" by simp
    qed
  qed
  from first p f g u show ?thesis by auto
qed

theorem matcher_threshold_witness:
  "NewFaceMatcher [LabeledFaceDescriptors ''alice'' [[0]]] (6 / 10)
     \<in> set (fst (post_handler example_world
                  (request (JArr [alice]) (JStr ''https://x/group.jpg''))))
   \<and> (\<exists>results.
        json (snd (post_handler example_world
                    (request (JArr [alice]) (JStr ''https://x/group.jpg'')))) =
          JObj [(''success'', JBool True), (''matches'', JArr (map match_json results))]
        \<and> length results = 2
        \<and> match_label (results ! 1) = ''unknown'')"
proof -
  have t: "truthy (JStr ''https://x/group.jpg'')" by simp
  have m: "snd (load_models example_world (getAbsoluteModelPath example_world)) = Inr [(), (), ()]"
    by (rule example_models)
  have n: "[LabeledFaceDescriptors ''alice'' [[0]]] \<noteq> []" by simp
  have g: "snd (loadImage example_world (JStr ''https://x/group.jpg'')) = Inr ''group''"
    by (simp add: example_group)
  have far: "\<forall>ld\<in>set [LabeledFaceDescriptors ''alice'' [[0]]]. \<forall>v\<in>set (descriptors ld).
               6 / 10 < euclideanDistance example_world v ([[1 / 10], [5]] ! 1)"
    by (simp add: example_distance)
  have one: "(1::nat) < length [[1 / 10], [5::real]]" by simp
  from matcher_threshold [OF destructure_request t m example_alice n g example_faces] far one
  show ?thesis by force
qed

section \<open>The reference processor\<close>




lemma dataset_callback_labeled:
  assumes "destructure ''id'' ''imglink'' ''data'' e = Inr (ident, imglink)"
    and "truthy ident" and "truthy imglink"
    and "ToString (number_toString w) ident = Inr s"
    and "snd (loadImage w imglink) = Inr img"
  shows "snd (dataset_callback w e) =
     (case detectSingleFace w img of
        Inl err \<Rightarrow> Inr None
      | Inr None \<Rightarrow> Inr None
      | Inr (Some d) \<Rightarrow> Inr (Some (LabeledFaceDescriptors s [d])))"
  using assms
  by (cases "loadImage w imglink")
     (auto simp: dataset_callback_unfold split: sum.splits prod.splits if_splits option.splits)

text \<open>
  An entry with a truthy \<open>imglink\<close> and a truthy \<open>id\<close> that has no text form (an object
  with an own \<open>toString\<close> property, or an array holding one) makes the callback reject:
  the log line at the head of the \<open>try\<close> block throws, and so does the log line of the
  \<open>catch\<close> handler. No image is fetched for such an entry.
\<close>

lemma dataset_callback_unconvertible_id:
  assumes "destructure ''id'' ''imglink'' ''data'' e = Inr (ident, imglink)"
    and "truthy ident" and "truthy imglink"
    and "ToString (number_toString w) ident = Inl err"
  shows "dataset_callback w e = ([], Inl err)"
  using assms by (simp add: dataset_callback_unfold)

lemma example_unconvertible_id:
  "dataset_callback example_world
     (JObj [(''id'', JObj [(''toString'', JNum 1)]), (''imglink'', JStr ''https://x/alice.jpg'')])
   = ([], Inl (Error ''Cannot convert object to primitive value''))"
  by (simp add: dataset_callback_unfold destructure_def)






lemma all_results_filter_Some:
  assumes "\<forall>r\<in>set rs. \<exists>x. r = Inr (Some x)"
  shows "\<exists>xs. all_results rs = Inr (map Some xs) \<and> rs = map (\<lambda>x. Inr (Some x)) xs"
  using assms
proof (induction rs)
  case Nil
  then show ?case by simp
next
  case (Cons r rs)
  then obtain x where r: "r = Inr (Some x)" by auto
  from Cons obtain xs where "all_results rs = Inr (map Some xs)"
    and "rs = map (\<lambda>x. Inr (Some x)) xs" by auto
  with r have "all_results (r # rs) = Inr (map Some (x # xs))
                 \<and> r # rs = map (\<lambda>x. Inr (Some x)) (x # xs)"
    by simp
  then show ?case by (rule exI [of _ "x # xs"])
qed

lemma map_the_filter_Some: "map the (filter (\<lambda>desc. desc \<noteq> None) (map Some xs)) = xs"
  by (induction xs) simp_all

lemma post_handler_batch_rejected:
  assumes "destructure ''dataset'' ''group_img'' ''req.body'' body = Inr (JArr ds, group_img)"
    and "truthy group_img"
    and "snd (load_models w (getAbsoluteModelPath w)) = Inr us"
    and "snd (loadLabeledImages w ds) = Inl e"
  shows "post_handler w body =
     (fst (load_models w (getAbsoluteModelPath w)) @ fst (loadLabeledImages w ds),
      \<lparr>status = 500,
       json = JObj [(''error'', JStr ''Internal server error''),
                    (''message'', JStr (message e))]\<rparr>)"
  using assms(3,4)
  by (cases "loadLabeledImages w ds")
     (simp add: post_handler_def handler_body_valid [OF assms(1,2)])

text \<open>
  Claim C3, amended. If every entry of the dataset has a truthy \<open>id\<close> and \<open>imglink\<close>,
  its \<open>id\<close> can be converted to a string (\<open>id.toString()\<close> returns), its image loads,
  and the detector finds a face in it, then the reference processor returns as many
  labeled descriptors as the dataset has entries, the one of an entry carrying the
  label \<open>id.toString()\<close> and a list of one vector. The image and the face are
  conditions on the world: what loading the entry's \<open>imglink\<close> yields and what the
  detector finds in that image.
\<close>

theorem every_entry_labeled:
  assumes "\<forall>e\<in>set ds. \<exists>ident imglink img d s.
             destructure ''id'' ''imglink'' ''data'' e = Inr (ident, imglink)
             \<and> truthy ident \<and> truthy imglink
             \<and> toString (number_toString w) ident = Inr s
             \<and> snd (loadImage w imglink) = Inr img
             \<and> detectSingleFace w img = Inr (Some d)"
  shows "\<exists>lds. snd (loadLabeledImages w ds) = Inr lds
           \<and> length lds = length ds
           \<and> (\<forall>i<length ds.
                toString (number_toString w) (get_property (ds ! i) ''id'') = Inr (label (lds ! i))
                \<and> (\<exists>d. descriptors (lds ! i) = [d]))"
proof -
  have each: "\<forall>e\<in>set ds. \<exists>s d. snd (dataset_callback w e) = Inr (Some (LabeledFaceDescriptors s [d]))
                 \<and> toString (number_toString w) (get_property e ''id'') = Inr s"
  proof
    fix e assume "e \<in> set ds"
    with assms obtain ident imglink img d s where
      de: "destructure ''id'' ''imglink'' ''data'' e = Inr (ident, imglink)"
      and ti: "truthy ident" and tl: "truthy imglink"
      and ts: "toString (number_toString w) ident = Inr s"
      and lo: "snd (loadImage w imglink) = Inr img"
      and fa: "detectSingleFace w img = Inr (Some d)"
      by blast
    from toString_ToString [OF _ _ ts] truthy_defined [OF ti]
    have s: "ToString (number_toString w) ident = Inr s" by simp
    from de have "ident = get_property e ''id''"
      by (auto simp: destructure_def split: if_splits)
    with ToString_toString [OF _ _ s] truthy_defined [OF ti]
    have "toString (number_toString w) (get_property e ''id'') = Inr s" by simp
    moreover from dataset_callback_labeled [OF de ti tl s lo] fa
    have "snd (dataset_callback w e) = Inr (Some (LabeledFaceDescriptors s [d]))" by simp
    ultimately show "\<exists>s d. snd (dataset_callback w e) = Inr (Some (LabeledFaceDescriptors s [d]))
                 \<and> toString (number_toString w) (get_property e ''id'') = Inr s"
      by blast
  qed
  then have "\<forall>r\<in>set (map (\<lambda>e. snd (dataset_callback w e)) ds). \<exists>x. r = Inr (Some x)"
    by auto
  from all_results_filter_Some [OF this] obtain lds where
    a: "all_results (map (\<lambda>e. snd (dataset_callback w e)) ds) = Inr (map Some lds)"
    and m: "map (\<lambda>e. snd (dataset_callback w e)) ds = map (\<lambda>x. Inr (Some x)) lds"
    by blast
  from a have r: "snd (loadLabeledImages w ds) = Inr lds"
    by (simp add: loadLabeledImages_snd map_the_filter_Some)
  from m have len: "length ds = length lds" by (rule map_eq_imp_length_eq)
  have "\<forall>i<length ds.
          toString (number_toString w) (get_property (ds ! i) ''id'') = Inr (label (lds ! i))
          \<and> (\<exists>d. descriptors (lds ! i) = [d])"
  proof (intro allI impI)
    fix i assume i: "i < length ds"
    then have "snd (dataset_callback w (ds ! i)) = map (\<lambda>e. snd (dataset_callback w e)) ds ! i"
      by simp
    also have "\<dots> = Inr (Some (lds ! i))" using m i len by simp
    finally have c: "snd (dataset_callback w (ds ! i)) = Inr (Some (lds ! i))" .
    from each i obtain s d where
      k: "snd (dataset_callback w (ds ! i)) = Inr (Some (LabeledFaceDescriptors s [d]))"
      and t: "toString (number_toString w) (get_property (ds ! i) ''id'') = Inr s"
      by (meson nth_mem)
    from c k have "lds ! i = LabeledFaceDescriptors s [d]" by simp
    with t show "toString (number_toString w) (get_property (ds ! i) ''id'') = Inr (label (lds ! i))
          \<and> (\<exists>d. descriptors (lds ! i) = [d])"
      by simp
  qed
  with r len show ?thesis by auto
qed

lemma example_seven_callback:
  "dataset_callback example_world seven =
     ([Fetch (JStr ''https://x/alice.jpg''), CanvasLoadImage ''alice'', DetectSingleFace ''alice''],
      Inr (Some (LabeledFaceDescriptors ''7'' [[0]])))"
  by (simp add: dataset_callback_unfold loadImage_unfold destructure_def seven_def example_world_def)

lemma example_alice_load:
  "snd (loadImage example_world (JStr ''https://x/alice.jpg'')) = Inr ''alice''"
  by (simp add: loadImage_unfold example_world_def)

theorem every_entry_labeled_witness:
  "\<exists>lds. snd (loadLabeledImages example_world [alice, seven]) = Inr lds
     \<and> length lds = 2
     \<and> label (lds ! 0) = ''alice'' \<and> label (lds ! 1) = ''7''
     \<and> (\<exists>d. descriptors (lds ! 0) = [d]) \<and> (\<exists>d. descriptors (lds ! 1) = [d])"
proof -
  have a: "\<exists>ident imglink img d s.
             destructure ''id'' ''imglink'' ''data'' alice = Inr (ident, imglink)
             \<and> truthy ident \<and> truthy imglink
             \<and> toString (number_toString example_world) ident = Inr s
             \<and> snd (loadImage example_world imglink) = Inr img
             \<and> detectSingleFace example_world img = Inr (Some d)"
  proof (intro exI conjI)
    show "destructure ''id'' ''imglink'' ''data'' alice
            = Inr (JStr ''alice'', JStr ''https://x/alice.jpg'')"
      by (simp add: destructure_def alice_def)
    show "truthy (JStr ''alice'')" by simp
    show "truthy (JStr ''https://x/alice.jpg'')" by simp
    show "toString (number_toString example_world) (JStr ''alice'') = Inr ''alice''"
      by (simp)
    show "snd (loadImage example_world (JStr ''https://x/alice.jpg'')) = Inr ''alice''"
      by (rule example_alice_load)
    show "detectSingleFace example_world ''alice'' = Inr (Some [0])"
      by (simp add: example_world_def)
  qed
  have b: "\<exists>ident imglink img d s.
             destructure ''id'' ''imglink'' ''data'' seven = Inr (ident, imglink)
             \<and> truthy ident \<and> truthy imglink
             \<and> toString (number_toString example_world) ident = Inr s
             \<and> snd (loadImage example_world imglink) = Inr img
             \<and> detectSingleFace example_world img = Inr (Some d)"
  proof (intro exI conjI)
    show "destructure ''id'' ''imglink'' ''data'' seven
            = Inr (JNum 7, JStr ''https://x/alice.jpg'')"
      by (simp add: destructure_def seven_def)
    show "truthy (JNum 7)" by simp
    show "truthy (JStr ''https://x/alice.jpg'')" by simp
    show "toString (number_toString example_world) (JNum 7) = Inr ''7''"
      by (simp add: example_world_def)
    show "snd (loadImage example_world (JStr ''https://x/alice.jpg'')) = Inr ''alice''"
      by (rule example_alice_load)
    show "detectSingleFace example_world ''alice'' = Inr (Some [0])"
      by (simp add: example_world_def)
  qed
  from a b have h: "\<forall>e\<in>set [alice, seven]. \<exists>ident imglink img d s.
             destructure ''id'' ''imglink'' ''data'' e = Inr (ident, imglink)
             \<and> truthy ident \<and> truthy imglink
             \<and> toString (number_toString example_world) ident = Inr s
             \<and> snd (loadImage example_world imglink) = Inr img
             \<and> detectSingleFace example_world img = Inr (Some d)"
    by simp
  have ia: "toString (number_toString example_world) (get_property ([alice, seven] ! 0) ''id'')
              = Inr ''alice''"
    by (simp add: alice_def)
  have ib: "toString (number_toString example_world) (get_property ([alice, seven] ! 1) ''id'')
              = Inr ''7''"
    by (simp add: seven_def example_world_def)
  from every_entry_labeled [OF h] obtain lds where
    r: "snd (loadLabeledImages example_world [alice, seven]) = Inr lds"
    and l: "length lds = length [alice, seven]"
    and e: "\<forall>i<length [alice, seven].
              toString (number_toString example_world) (get_property ([alice, seven] ! i) ''id'')
                = Inr (label (lds ! i))
              \<and> (\<exists>d. descriptors (lds ! i) = [d])"
    by blast
  have z: "(0::nat) < length [alice, seven]" and o: "(1::nat) < length [alice, seven]"
    by simp_all
  from e [rule_format, OF z] ia e [rule_format, OF o] ib r l
  show ?thesis by auto
qed

text \<open>
  Claim C3 as stated asks only for a truthy \<open>id\<close> and \<open>imglink\<close>, an image that loads
  and a face in it. The entry whose \<open>id\<close> is \<open>{"toString": 1}\<close> meets all of these, and
  the reference processor returns no list at all: the log line at the head of the
  \<open>try\<close> block throws on the \<open>id\<close>, the log line of the \<open>catch\<close> handler throws on it
  again, the callback rejects, and the handler responds 500.
\<close>

theorem unconvertible_id_rejects_batch:
  "destructure ''id'' ''imglink'' ''data'' odd_id
     = Inr (JObj [(''toString'', JNum 1)], JStr ''https://x/alice.jpg'')
   \<and> truthy (JObj [(''toString'', JNum 1)])
   \<and> truthy (JStr ''https://x/alice.jpg'')
   \<and> snd (loadImage example_world (JStr ''https://x/alice.jpg'')) = Inr ''alice''
   \<and> detectSingleFace example_world ''alice'' = Inr (Some [0])
   \<and> snd (loadLabeledImages example_world [odd_id])
       = Inl (Error ''Cannot convert object to primitive value'')
   \<and> snd (post_handler example_world (request (JArr [odd_id]) (JStr ''https://x/group.jpg''))) =
       \<lparr>status = 500,
        json = JObj [(''error'', JStr ''Internal server error''),
                     (''message'', JStr ''Cannot convert object to primitive value'')]\<rparr>"
proof -
  have d: "destructure ''id'' ''imglink'' ''data'' odd_id
     = Inr (JObj [(''toString'', JNum 1)], JStr ''https://x/alice.jpg'')"
    by (simp add: destructure_def odd_id_def)
  have f: "detectSingleFace example_world ''alice'' = Inr (Some [0])"
    by (simp add: example_world_def)
  have c: "dataset_callback example_world odd_id
             = ([], Inl (Error ''Cannot convert object to primitive value''))"
    using example_unconvertible_id by (simp add: odd_id_def)
  have l: "snd (loadLabeledImages example_world [odd_id])
       = Inl (Error ''Cannot convert object to primitive value'')"
    by (simp add: loadLabeledImages_snd c)
  have t: "truthy (JStr ''https://x/group.jpg'')" by simp
  have m: "snd (load_models example_world (getAbsoluteModelPath example_world)) = Inr [(), (), ()]"
    by (rule example_models)
  from post_handler_batch_rejected [OF destructure_request t m l]
  have "snd (post_handler example_world (request (JArr [odd_id]) (JStr ''https://x/group.jpg''))) =
       \<lparr>status = 500,
        json = JObj [(''error'', JStr ''Internal server error''),
                     (''message'', JStr ''Cannot convert object to primitive value'')]\<rparr>"
    by simp
  with d f l example_alice_load show ?thesis by simp
qed

lemma dataset_callback_JNull:
  "dataset_callback w JNull =
     ([], Inl (Error ''Cannot destructure property 'id' of 'data' as it is null.''))"
  by (simp add: dataset_callback_unfold destructure_def quoted_def)

lemma dataset_callback_JUndefined:
  "dataset_callback w JUndefined =
     ([], Inl (Error ''Cannot destructure property 'id' of 'data' as it is undefined.''))"
  by (simp add: dataset_callback_unfold destructure_def quoted_def)

lemma loadLabeledImages_rejected:
  assumes "e \<in> set ds" and "snd (dataset_callback w e) = Inl err"
  shows "\<exists>err'. snd (loadLabeledImages w ds) = Inl err'"
proof -
  from assms have "Inl err \<in> set (map (\<lambda>e. snd (dataset_callback w e)) ds)"
    by force
  from all_results_Inl [OF this] show ?thesis
    by (auto simp: loadLabeledImages_snd)
qed

text \<open>
  Claim C9, amended. For every validated request (whose models load) with a dataset
  that contains \<open>null\<close> or \<open>undefined\<close>, destructuring that entry throws before any call
  is made for it, the reference processor rejects, and the handler responds 500 with
  \<open>{error: "Internal server error", message}\<close>, \<open>message\<close> being the message of the
  rejection.
\<close>

theorem null_entry_rejects_batch:
  assumes "destructure ''dataset'' ''group_img'' ''req.body'' body = Inr (JArr ds, group_img)"
    and "truthy group_img"
    and "snd (load_models w (getAbsoluteModelPath w)) = Inr us"
    and "JNull \<in> set ds \<or> JUndefined \<in> set ds"
  shows "(\<exists>err. snd (loadLabeledImages w ds) = Inl err
            \<and> snd (post_handler w body) =
                \<lparr>status = 500,
                 json = JObj [(''error'', JStr ''Internal server error''),
                              (''message'', JStr (message err))]\<rparr>)
       \<and> (\<forall>v. v = JNull \<or> v = JUndefined \<longrightarrow>
            (\<exists>err. destructure ''id'' ''imglink'' ''data'' v = Inl err
               \<and> dataset_callback w v = ([], Inl err)))"
proof -
  from assms(4) obtain err where "snd (loadLabeledImages w ds) = Inl err"
    using loadLabeledImages_rejected [of JNull ds w] loadLabeledImages_rejected [of JUndefined ds w]
    by (auto simp: dataset_callback_JNull dataset_callback_JUndefined)
  with post_handler_batch_rejected [OF assms(1-3) this] show ?thesis
    by (auto simp: dataset_callback_unfold destructure_def)
qed

theorem null_entry_rejects_batch_witness:
  "snd (post_handler example_world (request (JArr [alice, JNull]) (JStr ''https://x/group.jpg''))) =
     \<lparr>status = 500,
      json = JObj [(''error'', JStr ''Internal server error''),
                   (''message'',
                    JStr ''Cannot destructure property 'id' of 'data' as it is null.'')]\<rparr>"
proof -
  have t: "truthy (JStr ''https://x/group.jpg'')" by simp
  have m: "snd (load_models example_world (getAbsoluteModelPath example_world)) = Inr [(), (), ()]"
    by (rule example_models)
  have n: "JNull \<in> set [alice, JNull] \<or> JUndefined \<in> set [alice, JNull]" by simp
  have l: "snd (loadLabeledImages example_world [alice, JNull])
             = Inl (Error ''Cannot destructure property 'id' of 'data' as it is null.'')"
    by (simp add: loadLabeledImages_snd example_alice_callback dataset_callback_JNull)
  from null_entry_rejects_batch [OF destructure_request t m n] l
  show ?thesis by auto
qed

text \<open>
  Claim C9 as stated speaks of every entry that is not an object. A number is not an
  object, and destructuring it does not throw: both fields read as \<open>undefined\<close>, the
  entry is skipped like an object without fields, and the request succeeds.
\<close>

theorem primitive_entry_is_skipped:
  "destructure ''id'' ''imglink'' ''data'' (JNum 7) = Inr (JUndefined, JUndefined)
   \<and> snd (loadLabeledImages example_world [JNum 7, alice])
       = Inr [LabeledFaceDescriptors ''alice'' [[0]]]
   \<and> status (snd (post_handler example_world
                    (request (JArr [JNum 7, alice]) (JStr ''https://x/group.jpg'')))) = 200"
proof -
  have d: "destructure ''id'' ''imglink'' ''data'' (JNum 7) = Inr (JUndefined, JUndefined)"
    by (simp add: destructure_def)
  then have c: "dataset_callback example_world (JNum 7) = ([], Inr None)"
    by (simp add: dataset_callback_unfold)
  have l: "snd (loadLabeledImages example_world [JNum 7, alice])
       = Inr [LabeledFaceDescriptors ''alice'' [[0]]]"
    by (simp add: loadLabeledImages_snd c example_alice_callback)
  have t: "truthy (JStr ''https://x/group.jpg'')" by simp
  have m: "snd (load_models example_world (getAbsoluteModelPath example_world)) = Inr [(), (), ()]"
    by (rule example_models)
  have n: "[LabeledFaceDescriptors ''alice'' [[0]]] \<noteq> []" by simp
  have g: "snd (loadImage example_world (JStr ''https://x/group.jpg'')) = Inr ''group''"
    by (simp add: example_group)
  from post_handler_success [OF destructure_request t m l n g example_faces]
  have "status (snd (post_handler example_world
                    (request (JArr [JNum 7, alice]) (JStr ''https://x/group.jpg'')))) = 200"
    by auto
  with d l show ?thesis by simp
qed

end
